theory Spec2Isabelle
  imports Main "HOL-Library.Word" "HOL-Library.Finite_Map"
begin

unbundle bit_operations_syntax

section \<open>Go standard library used by package basic\<close>

text \<open>
  Package \<open>basic\<close> (file \<open>basic.go\<close>) imports \<open>crypto/sha256\<close>, \<open>crypto/subtle\<close>,
  \<open>fmt\<close> and \<open>net/http\<close>. The functions it calls are embedded here after the Go
  standard library, so that the code of the package can be evaluated on concrete inputs.
  A Go \<open>string\<close> is a sequence of bytes: an Isabelle \<open>string\<close>, whose characters are
  8 bits wide.
\<close>

type_synonym byte = "8 word"
type_synonym uint32 = "32 word"

subsection \<open>crypto/sha256\<close>

text \<open>\<open>[]byte(s)\<close>: the bytes of a string.\<close>

definition bytes :: "string \<Rightarrow> byte list" where
  "bytes s = map of_char s"

text \<open>
  The round constants \<open>_K\<close> of \<open>sha256block.go\<close>, in decimal (the first is
  \<open>0x428a2f98\<close>, the last \<open>0xc67178f2\<close>), and the initial hash value.
\<close>

definition K256 :: "uint32 list" where
  "K256 =
    [1116352408, 1899447441, 3049323471, 3921009573, 961987163, 1508970993,
     2453635748, 2870763221, 3624381080, 310598401, 607225278, 1426881987,
     1925078388, 2162078206, 2614888103, 3248222580, 3835390401, 4022224774,
     264347078, 604807628, 770255983, 1249150122, 1555081692, 1996064986,
     2554220882, 2821834349, 2952996808, 3210313671, 3336571891, 3584528711,
     113926993, 338241895, 666307205, 773529912, 1294757372, 1396182291,
     1695183700, 1986661051, 2177026350, 2456956037, 2730485921, 2820302411,
     3259730800, 3345764771, 3516065817, 3600352804, 4094571909, 275423344,
     430227734, 506948616, 659060556, 883997877, 958139571, 1322822218,
     1537002063, 1747873779, 1955562222, 2024104815, 2227730452, 2361852424,
     2428436474, 2756734187, 3204031479, 3329325298]"

definition init256 :: "uint32 list" where
  "init256 =
    [0x6a09e667, 0xbb67ae85, 0x3c6ef372, 0xa54ff53a, 0x510e527f, 0x9b05688c, 0x1f83d9ab, 0x5be0cd19]"

text \<open>\<open>bits.RotateLeft32(x, -n)\<close>: rotation to the right by \<open>n\<close> bits.\<close>

definition rotr :: "nat \<Rightarrow> uint32 \<Rightarrow> uint32" where
  "rotr n x = word_rotr n x"

text \<open>The sixteen big-endian words of a 64-byte chunk.\<close>

fun be32 :: "byte list \<Rightarrow> uint32 list" where
  "be32 (a # b # c # d # p) =
     (push_bit 24 (ucast a) OR push_bit 16 (ucast b) OR push_bit 8 (ucast c) OR ucast d) # be32 p"
| "be32 _ = []"

text \<open>
  The message schedule \<open>w[16..63]\<close>. The list holds the words computed so far, the latest
  first, so that \<open>w[i-2]\<close>, \<open>w[i-7]\<close>, \<open>w[i-15]\<close> and \<open>w[i-16]\<close> are at the positions
  1, 6, 14 and 15.
\<close>

fun schedule :: "nat \<Rightarrow> uint32 list \<Rightarrow> uint32 list" where
  "schedule 0 w = w"
| "schedule (Suc n) w =
     (let v1 = w ! 1;
          t1 = rotr 17 v1 XOR rotr 19 v1 XOR drop_bit 10 v1;
          v2 = w ! 14;
          t2 = rotr 7 v2 XOR rotr 18 v2 XOR drop_bit 3 v2
      in schedule n ((t1 + w ! 6 + t2 + w ! 15) # w))"

text \<open>One of the 64 rounds on the working variables \<open>a, ..., h\<close>.\<close>

fun round256 :: "uint32 list \<Rightarrow> uint32 \<times> uint32 \<Rightarrow> uint32 list" where
  "round256 [a, b, c, d, e, f, g, h] (k, w) =
     (let t1 = h + (rotr 6 e XOR rotr 11 e XOR rotr 25 e) + ((e AND f) XOR (NOT e AND g)) + k + w;
          t2 = (rotr 2 a XOR rotr 13 a XOR rotr 22 a) + ((a AND b) XOR (a AND c) XOR (b AND c))
      in [t1 + t2, a, b, c, d + t1, e, f, g])"
| "round256 s _ = s"

text \<open>\<open>blockGeneric\<close> on one chunk, and on all the chunks of the padded message.\<close>

definition block :: "uint32 list \<Rightarrow> byte list \<Rightarrow> uint32 list" where
  "block hs p = map2 (+) hs (foldl round256 hs (zip K256 (rev (schedule 48 (rev (be32 p))))))"

function blocks :: "uint32 list \<Rightarrow> byte list \<Rightarrow> uint32 list" where
  "blocks hs p = (if 64 \<le> length p then blocks (block hs (take 64 p)) (drop 64 p) else hs)"
  by pat_completeness auto
termination
  by (relation "measure (\<lambda>(hs, p). length p)") auto

declare blocks.simps [simp del]

definition be_bytes64 :: "64 word \<Rightarrow> byte list" where
  "be_bytes64 x = map (\<lambda>i. ucast (drop_bit (8 * i) x)) [7, 6, 5, 4, 3, 2, 1, 0]"

definition be_bytes32 :: "uint32 \<Rightarrow> byte list" where
  "be_bytes32 x = map (\<lambda>i. ucast (drop_bit (8 * i) x)) [3, 2, 1, 0]"

text \<open>
  \<open>checkSum\<close>: a byte 0x80, zero bytes up to 56 modulo 64, and the length of the message
  in bits as a big-endian \<open>uint64\<close>.
\<close>

definition padding :: "nat \<Rightarrow> byte list" where
  "padding len =
     (let t = (if len mod 64 < 56 then 56 - len mod 64 else 64 + 56 - len mod 64)
      in (0x80 # replicate (t - 1) 0) @ be_bytes64 (push_bit 3 (of_nat len)))"

definition Sum256 :: "byte list \<Rightarrow> byte list" where
  "Sum256 data = concat (map be_bytes32 (blocks init256 (data @ padding (length data))))"

subsection \<open>crypto/subtle\<close>

text \<open>
  \<open>ConstantTimeByteEq(x, y) = int((uint32(x^y) - 1) >> 31)\<close>, and
  \<open>ConstantTimeCompare\<close>, which returns 0 on slices of different lengths and otherwise
  accumulates \<open>v |= x[i] ^ y[i]\<close> over all the positions.
\<close>

definition ConstantTimeByteEq :: "byte \<Rightarrow> byte \<Rightarrow> int" where
  "ConstantTimeByteEq x y = uint (drop_bit 31 ((ucast (x XOR y) :: uint32) - 1))"

definition ConstantTimeCompare :: "byte list \<Rightarrow> byte list \<Rightarrow> int" where
  "ConstantTimeCompare x y =
     (if length x \<noteq> length y then 0
      else ConstantTimeByteEq (foldl (\<lambda>v (a, b). v OR (a XOR b)) 0 (zip x y)) 0)"

subsection \<open>net/http\<close>

text \<open>
  \<open>http.Header\<close> is a \<open>map[string][]string\<close>. \<open>Set\<close> and \<open>Get\<close> address it by the
  canonical form of the key (\<open>textproto.CanonicalMIMEHeaderKey\<close>): a key made of token
  bytes only gets its first letter and every letter after a hyphen in upper case and the
  other letters in lower case; any other key is left as it is.
\<close>

type_synonym Header = "string \<rightharpoonup> string list"

definition isLower :: "char \<Rightarrow> bool" where
  "isLower c = (97 \<le> (of_char c :: nat) \<and> (of_char c :: nat) \<le> 122)"

definition isUpper :: "char \<Rightarrow> bool" where
  "isUpper c = (65 \<le> (of_char c :: nat) \<and> (of_char c :: nat) \<le> 90)"

definition isDigit :: "char \<Rightarrow> bool" where
  "isDigit c = (48 \<le> (of_char c :: nat) \<and> (of_char c :: nat) \<le> 57)"

definition validHeaderFieldByte :: "char \<Rightarrow> bool" where
  "validHeaderFieldByte c =
     (isLower c \<or> isUpper c \<or> isDigit c \<or>
      (of_char c :: nat) \<in> set [0x21, 0x23, 0x24, 0x25, 0x26, 0x27, 0x2A, 0x2B, 0x2D, 0x2E,
                                 0x5E, 0x5F, 0x60, 0x7C, 0x7E])"

fun canonicalMIMEHeaderKey :: "bool \<Rightarrow> string \<Rightarrow> string" where
  "canonicalMIMEHeaderKey upper [] = []"
| "canonicalMIMEHeaderKey upper (c # s) =
     (let c' = (if upper \<and> isLower c then char_of ((of_char c :: nat) - 32)
                else if \<not> upper \<and> isUpper c then char_of ((of_char c :: nat) + 32)
                else c)
      in c' # canonicalMIMEHeaderKey (c' = CHR ''-'') s)"

definition CanonicalMIMEHeaderKey :: "string \<Rightarrow> string" where
  "CanonicalMIMEHeaderKey s =
     (if list_all validHeaderFieldByte s then canonicalMIMEHeaderKey True s else s)"

definition Set :: "string \<Rightarrow> string \<Rightarrow> Header \<Rightarrow> Header" where
  "Set key v h = h(CanonicalMIMEHeaderKey key \<mapsto> [v])"

definition Get :: "string \<Rightarrow> Header \<Rightarrow> string" where
  "Get key h = (case h (CanonicalMIMEHeaderKey key) of Some (v # vs) \<Rightarrow> v | _ \<Rightarrow> [])"

text \<open>
  A \<open>http.ResponseWriter\<close>, as \<open>httptest.ResponseRecorder\<close> keeps it: the header map, the
  status code, whether the status line has been written, and the body. \<open>WriteHeader\<close>
  takes effect once (the package and its test pass it 401 and 200 only, both valid
  codes); \<open>Write\<close> sends status 200 first when no status has been written.
\<close>

record ResponseWriter =
  HeaderMap :: Header
  Code :: nat
  wroteHeader :: bool
  Body :: string

definition NewRecorder :: ResponseWriter where
  "NewRecorder = \<lparr>HeaderMap = Map.empty, Code = 200, wroteHeader = False, Body = []\<rparr>"

definition WriteHeader :: "nat \<Rightarrow> ResponseWriter \<Rightarrow> ResponseWriter" where
  "WriteHeader code w = (if wroteHeader w then w else w\<lparr>Code := code, wroteHeader := True\<rparr>)"

definition Write :: "string \<Rightarrow> ResponseWriter \<Rightarrow> ResponseWriter" where
  "Write b w = (let w' = (if wroteHeader w then w else WriteHeader 200 w) in w'\<lparr>Body := Body w' @ b\<rparr>)"

definition StatusUnauthorized :: nat where
  "StatusUnauthorized = 401"

text \<open>
  \<open>http.Error(w, error, code)\<close>, as in the Go release the package names (1.18): sets
  \<open>Content-Type\<close> and \<open>X-Content-Type-Options\<close>, writes the status, and prints the
  message followed by a newline (\<open>fmt.Fprintln\<close>).
\<close>

definition Error :: "ResponseWriter \<Rightarrow> string \<Rightarrow> nat \<Rightarrow> ResponseWriter" where
  "Error w msg code =
     (let w1 = w\<lparr>HeaderMap := Set ''Content-Type'' ''text/plain; charset=utf-8'' (HeaderMap w)\<rparr>;
          w2 = w1\<lparr>HeaderMap := Set ''X-Content-Type-Options'' ''nosniff'' (HeaderMap w1)\<rparr>;
          w3 = WriteHeader code w2
      in Write (msg @ [CHR 0x0A]) w3)"

text \<open>
  A request is seen by the package through \<open>r.BasicAuth()\<close> only, which returns
  \<open>(username, password, ok)\<close>. The request is a record of that result (\<open>None\<close> when \<open>ok\<close>
  is false: no \<open>Authorization\<close> header, another scheme, or credentials that do not
  decode) and, in its extension, of everything else a handler may read.
\<close>

record Request =
  BasicAuth :: "(string \<times> string) option"

text \<open>A \<open>http.Handler\<close>: \<open>ServeHTTP(w, r)\<close> acts on the response writer.\<close>

type_synonym 'r Handler = "ResponseWriter \<Rightarrow> 'r Request_scheme \<Rightarrow> ResponseWriter"

section \<open>Package basic\<close>

text \<open>A call through a nil function value or a nil interface panics.\<close>

datatype error = NilDereference

text \<open>
  A \<open>map[string]string\<close> is a finite map, or nil. \<open>len\<close> of a nil map is 0, and a lookup
  in it finds nothing; \<open>users[k]\<close> without the \<open>ok\<close> result is the empty string for a
  missing key.
\<close>

type_synonym users = "(string, string) fmap option"

definition len :: "users \<Rightarrow> nat" where
  "len users = (case users of None \<Rightarrow> 0 | Some m \<Rightarrow> fcard (fmdom m))"

definition lookup :: "users \<Rightarrow> string \<Rightarrow> string option" where
  "lookup users k = (case users of None \<Rightarrow> None | Some m \<Rightarrow> fmlookup m k)"

definition index :: "users \<Rightarrow> string \<Rightarrow> string" where
  "index users k = (case lookup users k of None \<Rightarrow> [] | Some v \<Rightarrow> v)"

text \<open>The struct \<open>BasicAuth\<close>. A function or handler field may be nil.\<close>

record 'r BasicAuth =
  Authenticator :: "(string \<Rightarrow> string \<Rightarrow> bool) option"
  Charset :: string
  InvalidCredentialsResponse :: "'r Handler option"
  InvalidSchemeResponse :: "'r Handler option"
  Realm :: string
  Users :: users

text \<open>\<open>CompareInputs\<close>: both inputs are hashed and the digests compared.\<close>

definition CompareInputs :: "string \<Rightarrow> string \<Rightarrow> bool" where
  "CompareInputs input expected =
     (let inputHash = Sum256 (bytes input);
          expectedHash = Sum256 (bytes expected)
      in ConstantTimeCompare inputHash expectedHash = 1)"

text \<open>The closure that \<open>NewDefaultBasicAuth\<close> stores in the field \<open>Authenticator\<close>.\<close>

definition DefaultAuthenticator :: "users \<Rightarrow> string \<Rightarrow> string \<Rightarrow> bool" where
  "DefaultAuthenticator users username password =
     (if len users \<noteq> 0 then
        (case lookup users username of
           Some val \<Rightarrow>
             (let usernamesMatch = CompareInputs username (index users username);
                  passwordsMatch = CompareInputs password val
              in usernamesMatch \<and> passwordsMatch)
         | None \<Rightarrow> False)
      else False)"

definition DefaultInvalidCredentialsResponse :: "'r Handler" where
  "DefaultInvalidCredentialsResponse w r =
     Error w ''Invalid username and/or password!'' StatusUnauthorized"

definition DefaultInvalidSchemeResponse :: "'r Handler" where
  "DefaultInvalidSchemeResponse w r =
     Error w ''Invalid authentication scheme!'' StatusUnauthorized"

definition NewDefaultBasicAuth :: "users \<Rightarrow> 'r BasicAuth" where
  "NewDefaultBasicAuth users =
     \<lparr>Authenticator = Some (DefaultAuthenticator users),
      Charset = ''UTF-8'',
      InvalidCredentialsResponse = Some DefaultInvalidCredentialsResponse,
      InvalidSchemeResponse = Some DefaultInvalidSchemeResponse,
      Realm = [],
      Users = users\<rparr>"

definition NewCustomBasicAuth ::
  "(string \<Rightarrow> string \<Rightarrow> bool) option \<Rightarrow> string \<Rightarrow> 'r Handler option \<Rightarrow> 'r Handler option \<Rightarrow>
   string \<Rightarrow> users \<Rightarrow> 'r BasicAuth" where
  "NewCustomBasicAuth authenticator charset invalidCredentialsResponse invalidSchemeResponse
     realm users =
     (let defaultConfig = NewDefaultBasicAuth users;
          authenticator' =
            (if authenticator = None then Authenticator defaultConfig else authenticator);
          invalidCredentialsResponse' =
            (if invalidCredentialsResponse = None then InvalidCredentialsResponse defaultConfig
             else invalidCredentialsResponse);
          invalidSchemeResponse' =
            (if invalidSchemeResponse = None then InvalidSchemeResponse defaultConfig
             else invalidSchemeResponse);
          users' = (if len users = 0 then Users defaultConfig else users)
      in \<lparr>Authenticator = authenticator',
          Charset = charset,
          InvalidCredentialsResponse = invalidCredentialsResponse',
          InvalidSchemeResponse = invalidSchemeResponse',
          Realm = realm,
          Users = users'\<rparr>)"

text \<open>\<open>fmt.Sprintf\<close> of the challenge: the two strings between the fixed pieces.\<close>

definition challenge :: "string \<Rightarrow> string \<Rightarrow> string" where
  "challenge realm charset =
     ''Basic realm='' @ [CHR 0x22] @ realm @ [CHR 0x22] @ '', charset='' @ [CHR 0x22] @ charset @
     [CHR 0x22]"

definition SetWWWAuthenticate :: "'r BasicAuth \<Rightarrow> ResponseWriter \<Rightarrow> ResponseWriter" where
  "SetWWWAuthenticate a w =
     (if Realm a \<noteq> [] \<and> Charset a \<noteq> [] then
        (let realm = challenge (Realm a) (Charset a)
         in w\<lparr>HeaderMap := Set ''WWW-Authenticate'' realm (HeaderMap w)\<rparr>)
      else w)"

definition SendInvalidCredentialsResponse ::
  "'r BasicAuth \<Rightarrow> ResponseWriter \<Rightarrow> 'r Request_scheme \<Rightarrow> error + ResponseWriter" where
  "SendInvalidCredentialsResponse a w r =
     (let w' = SetWWWAuthenticate a w
      in case InvalidCredentialsResponse a of
           None \<Rightarrow> Inl NilDereference
         | Some h \<Rightarrow> Inr (h w' r))"

definition SendInvalidSchemeResponse ::
  "'r BasicAuth \<Rightarrow> ResponseWriter \<Rightarrow> 'r Request_scheme \<Rightarrow> error + ResponseWriter" where
  "SendInvalidSchemeResponse a w r =
     (let w' = SetWWWAuthenticate a w
      in case InvalidSchemeResponse a of
           None \<Rightarrow> Inl NilDereference
         | Some h \<Rightarrow> Inr (h w' r))"

text \<open>
  The handler that \<open>Authenticate(next)\<close> returns, applied to a response writer and a
  request.
\<close>

definition Authenticate ::
  "'r BasicAuth \<Rightarrow> 'r Handler option \<Rightarrow> ResponseWriter \<Rightarrow> 'r Request_scheme \<Rightarrow>
   error + ResponseWriter" where
  "Authenticate a next w r =
     (case BasicAuth r of
        None \<Rightarrow> SendInvalidSchemeResponse a w r
      | Some (username, password) \<Rightarrow>
          (case Authenticator a of
             None \<Rightarrow> Inl NilDereference
           | Some authenticator \<Rightarrow>
               (let authenticated = authenticator username password
                in if \<not> authenticated then SendInvalidCredentialsResponse a w r
                   else (case next of
                           None \<Rightarrow> Inl NilDereference
                         | Some h \<Rightarrow> Inr (h w r)))))"

text \<open>
  The test file of the package (\<open>TestAuthenticate\<close>): its table of users, and the handler
  it protects, which only writes status 200.
\<close>

definition test_users :: users where
  "test_users =
     Some (fmap_of_list [(''gerysantoso'', ''gerysantoso''), (''a_username'', ''a_password'')])"

definition test_next :: "'r Handler" where
  "test_next w r = WriteHeader 200 w"

section \<open>The comparison of two inputs\<close>

lemma unat_ucast_byte: "unat (ucast (v::byte) :: uint32) = unat v"
  by transfer (simp add: take_bit_nat_eq_self_iff)

lemma ConstantTimeByteEq_zero: "ConstantTimeByteEq v 0 = 1 \<longleftrightarrow> v = 0"
proof (cases "v = 0")
  case True
  then show ?thesis by (simp add: ConstantTimeByteEq_def)
next
  case False
  let ?x = "ucast v :: uint32"
  have lt: "unat v < 256" using unsigned_less [of v, where 'a = nat] by simp
  have "unat ?x \<noteq> 0" using False by (simp add: unat_ucast_byte unat_eq_0)
  then have nz: "?x \<noteq> 0" by (simp add: unat_eq_0)
  have "unat (?x - 1) = unat v - 1"
    using unat_minus_one [OF nz] by (simp add: unat_ucast_byte)
  then have "unat (?x - 1) < 2 ^ 31" using lt by simp
  then have "unat (?x - 1) div 2 ^ 31 = 0" by simp
  moreover have "unat (drop_bit 31 (?x - 1)) = drop_bit 31 (unat (?x - 1))"
    by (rule unat_drop_bit_eq)
  moreover have "drop_bit 31 (unat (?x - 1)) = unat (?x - 1) div 2 ^ 31"
    by (rule drop_bit_eq_div)
  ultimately have "unat (drop_bit 31 (?x - 1)) = 0" by simp
  then have "drop_bit 31 (?x - 1) = 0" by (simp add: unat_eq_0)
  then show ?thesis using False by (simp add: ConstantTimeByteEq_def)
qed

lemma xor_byte_zero: "(a::byte) XOR b = 0 \<longleftrightarrow> a = b"
  by (metis bit.xor_left_self xor.right_neutral)

lemma foldl_or_xor_zero:
  "length x = length y \<Longrightarrow>
   foldl (\<lambda>v (a, b). v OR (a XOR b)) acc (zip x y) = (0 :: byte) \<longleftrightarrow> acc = 0 \<and> x = y"
proof (induction x y arbitrary: acc rule: list_induct2)
  case Nil
  then show ?case by simp
next
  case (Cons a x b y)
  then show ?case by (auto simp: or_eq_0_iff xor_byte_zero)
qed

lemma ConstantTimeCompare_iff: "ConstantTimeCompare x y = 1 \<longleftrightarrow> x = y"
  by (auto simp: ConstantTimeCompare_def ConstantTimeByteEq_zero foldl_or_xor_zero)

lemma CompareInputs_iff: "CompareInputs a b \<longleftrightarrow> Sum256 (bytes a) = Sum256 (bytes b)"
  by (simp add: CompareInputs_def ConstantTimeCompare_iff)

lemma CompareInputs_same: "CompareInputs a a"
  by (simp add: CompareInputs_iff)

text \<open>The digests of the second entry of the test table, computed by the model.\<close>

lemma digest_a_username:
  "Sum256 (bytes ''a_username'') =
     [0x95,0x9d,0x2d,0x4d,0x60,0x29,0x4e,0xce,0x5f,0x9e,0x26,0x15,0xb1,0xa6,0x8b,0xae,
      0x2b,0x5b,0x98,0x57,0xbb,0x73,0xf0,0x97,0x17,0x50,0x4d,0xf3,0x89,0x58,0xb0,0xfb]"
  by code_simp

lemma digest_a_password:
  "Sum256 (bytes ''a_password'') =
     [0xf8,0x62,0x2e,0xe5,0x8b,0xb1,0x81,0xbb,0xac,0x02,0x7f,0x08,0x34,0x67,0xda,0xf4,
      0x0c,0x28,0xba,0x69,0x5f,0x56,0x95,0x39,0x3c,0x3a,0xa0,0x8a,0xcc,0x7d,0x50,0x45]"
  by code_simp

lemma digest_gery:
  "Sum256 (bytes ''gery'') =
     [0x93,0x30,0x9f,0x0f,0x1b,0x1b,0x65,0xdb,0x9e,0xf2,0xeb,0xcf,0x27,0xb6,0xfb,0x8c,
      0x3d,0xb5,0xa7,0x00,0x95,0x82,0x2b,0x66,0xde,0xd1,0xc3,0xa5,0x18,0xe8,0x7e,0x20]"
  by code_simp

lemma digest_gerysantoso:
  "Sum256 (bytes ''gerysantoso'') =
     [0x15,0x5e,0x20,0x76,0x9c,0x2c,0x48,0xd3,0xa9,0x3b,0x8e,0xfc,0x6a,0xe2,0x42,0xee,
      0x56,0x0d,0xce,0x39,0xf0,0xae,0xc8,0xdd,0x1e,0x26,0x81,0xb3,0x65,0x0e,0x5e,0xba]"
  by code_simp

lemma CompareInputs_gery_gerysantoso: "\<not> CompareInputs ''gery'' ''gerysantoso''"
  by (simp add: CompareInputs_iff digest_gery digest_gerysantoso)

lemma CompareInputs_a_username_a_password: "\<not> CompareInputs ''a_username'' ''a_password''"
  by (simp add: CompareInputs_iff digest_a_username digest_a_password)

section \<open>The default authenticator\<close>

lemma lookup_len: "lookup users u = Some v \<Longrightarrow> len users \<noteq> 0"
proof -
  assume a: "lookup users u = Some v"
  then obtain m where m: "users = Some m" "fmlookup m u = Some v"
    by (auto simp: lookup_def split: option.splits)
  then have "u |\<in>| fmdom m" by (simp add: fmdomI)
  then have "fmdom m \<noteq> {||}" by auto
  then show ?thesis using m by (simp add: len_def)
qed

lemma DefaultAuthenticator_found:
  "lookup users u = Some v \<Longrightarrow>
   DefaultAuthenticator users u p = (CompareInputs u v \<and> CompareInputs p v)"
  using lookup_len [of users u v] by (simp add: DefaultAuthenticator_def index_def)

lemma DefaultAuthenticator_absent: "lookup users u = None \<Longrightarrow> \<not> DefaultAuthenticator users u p"
  by (simp add: DefaultAuthenticator_def)

lemma DefaultAuthenticator_empty: "len users = 0 \<Longrightarrow> \<not> DefaultAuthenticator users u p"
  by (simp add: DefaultAuthenticator_def)

lemma lookup_test_users:
  "lookup test_users ''gerysantoso'' = Some ''gerysantoso''"
  "lookup test_users ''a_username'' = Some ''a_password''"
  "lookup test_users ''gery'' = None"
  by (simp_all add: lookup_def test_users_def)

section \<open>Headers and the default responses\<close>

lemma canonical_keys:
  "CanonicalMIMEHeaderKey ''WWW-Authenticate'' = ''Www-Authenticate''"
  "CanonicalMIMEHeaderKey ''Content-Type'' = ''Content-Type''"
  "CanonicalMIMEHeaderKey ''X-Content-Type-Options'' = ''X-Content-Type-Options''"
  by code_simp+

lemma Error_fresh:
  "\<not> wroteHeader w \<Longrightarrow>
   Error w msg code =
     w\<lparr>HeaderMap := (HeaderMap w)(''Content-Type'' \<mapsto> [''text/plain; charset=utf-8''],
                                  ''X-Content-Type-Options'' \<mapsto> [''nosniff'']),
       Code := code, wroteHeader := True, Body := Body w @ msg @ [CHR 0x0A]\<rparr>"
  by (simp add: Error_def Set_def canonical_keys WriteHeader_def Write_def)

lemma Error_keeps_challenge:
  "HeaderMap (Error w msg code) ''Www-Authenticate'' = HeaderMap w ''Www-Authenticate''"
  by (simp add: Error_def Set_def canonical_keys WriteHeader_def Write_def Let_def)

section \<open>The challenge and the three paths of the gate\<close>

lemma SetWWWAuthenticate_set:
  "Realm a \<noteq> [] \<Longrightarrow> Charset a \<noteq> [] \<Longrightarrow>
   SetWWWAuthenticate a w =
     w\<lparr>HeaderMap := (HeaderMap w)(''Www-Authenticate'' \<mapsto> [challenge (Realm a) (Charset a)])\<rparr>"
  by (simp add: SetWWWAuthenticate_def Set_def canonical_keys)

lemma SetWWWAuthenticate_unset:
  "Realm a = [] \<or> Charset a = [] \<Longrightarrow> SetWWWAuthenticate a w = w"
  by (auto simp: SetWWWAuthenticate_def)

lemma Authenticate_invalid_scheme:
  "BasicAuth r = None \<Longrightarrow> InvalidSchemeResponse a = Some isr \<Longrightarrow>
   Authenticate a next w r = Inr (isr (SetWWWAuthenticate a w) r)"
  by (simp add: Authenticate_def SendInvalidSchemeResponse_def)

lemma Authenticate_invalid_credentials:
  "BasicAuth r = Some (u, p) \<Longrightarrow> Authenticator a = Some auth \<Longrightarrow> \<not> auth u p \<Longrightarrow>
   InvalidCredentialsResponse a = Some icr \<Longrightarrow>
   Authenticate a next w r = Inr (icr (SetWWWAuthenticate a w) r)"
  by (simp add: Authenticate_def SendInvalidCredentialsResponse_def)

lemma Authenticate_authorized:
  "BasicAuth r = Some (u, p) \<Longrightarrow> Authenticator a = Some auth \<Longrightarrow> auth u p \<Longrightarrow>
   Authenticate a (Some nxt) w r = Inr (nxt w r)"
  by (simp add: Authenticate_def)

section \<open>The constructors\<close>

lemma NewCustomBasicAuth_fields:
  "Authenticator (NewCustomBasicAuth au cs icr isr realm users) =
     Some (case au of None \<Rightarrow> DefaultAuthenticator users | Some f \<Rightarrow> f)"
  "InvalidCredentialsResponse (NewCustomBasicAuth au cs icr isr realm users) =
     Some (case icr of None \<Rightarrow> DefaultInvalidCredentialsResponse | Some h \<Rightarrow> h)"
  "InvalidSchemeResponse (NewCustomBasicAuth au cs icr isr realm users) =
     Some (case isr of None \<Rightarrow> DefaultInvalidSchemeResponse | Some h \<Rightarrow> h)"
  "Charset (NewCustomBasicAuth au cs icr isr realm users) = cs"
  "Realm (NewCustomBasicAuth au cs icr isr realm users) = realm"
  "Users (NewCustomBasicAuth au cs icr isr realm users) = users"
  by (simp_all add: NewCustomBasicAuth_def NewDefaultBasicAuth_def Let_def split: option.splits)

lemma NewDefaultBasicAuth_fields:
  "Authenticator (NewDefaultBasicAuth users) = Some (DefaultAuthenticator users)"
  "InvalidCredentialsResponse (NewDefaultBasicAuth users) = Some DefaultInvalidCredentialsResponse"
  "InvalidSchemeResponse (NewDefaultBasicAuth users) = Some DefaultInvalidSchemeResponse"
  "Charset (NewDefaultBasicAuth users) = ''UTF-8''"
  "Realm (NewDefaultBasicAuth users) = []"
  "Users (NewDefaultBasicAuth users) = users"
  by (simp_all add: NewDefaultBasicAuth_def)

lemma Authenticate_cong_fields:
  assumes "Authenticator a = Authenticator b"
    and "InvalidCredentialsResponse a = InvalidCredentialsResponse b"
    and "InvalidSchemeResponse a = InvalidSchemeResponse b"
    and "SetWWWAuthenticate a w = SetWWWAuthenticate b w"
  shows "Authenticate a nxt w r = Authenticate b nxt w r"
  unfolding Authenticate_def SendInvalidSchemeResponse_def SendInvalidCredentialsResponse_def
    assms
  by (rule refl)

lemma DefaultAuthenticator_test_users:
  "DefaultAuthenticator test_users ''gerysantoso'' ''gerysantoso''"
  "\<not> DefaultAuthenticator test_users ''gerysantoso'' ''gery''"
  "\<not> DefaultAuthenticator test_users ''gery'' ''gery''"
  by (simp_all add: DefaultAuthenticator_found DefaultAuthenticator_absent lookup_test_users
      CompareInputs_same CompareInputs_gery_gerysantoso)

section \<open>The claims\<close>

text \<open>
  C1 (the code departs from the claim). The claim: the default verifier accepts every
  pair registered in the users table and rejects every other pair. The test table of the
  package registers \<open>a_username\<close> with the password \<open>a_password\<close>, and the test
  \<open>test_different_username_and_password\<close> expects status 200 for that pair. The code
  compares the supplied username with \<open>users[username]\<close>, which is the stored password,
  so the pair is rejected and the gate answers 401.
\<close>

theorem registered_pair_rejected:
  "lookup test_users ''a_username'' = Some ''a_password'' \<and>
   Authenticator (NewDefaultBasicAuth test_users :: unit BasicAuth) =
     Some (DefaultAuthenticator test_users) \<and>
   DefaultAuthenticator test_users ''a_username'' ''a_password'' = False \<and>
   Authenticate (NewDefaultBasicAuth test_users) (Some test_next) NewRecorder
     \<lparr>BasicAuth = Some (''a_username'', ''a_password'')\<rparr> =
   Inr \<lparr>HeaderMap = [''Content-Type'' \<mapsto> [''text/plain; charset=utf-8''],
                     ''X-Content-Type-Options'' \<mapsto> [''nosniff'']],
        Code = 401, wroteHeader = True,
        Body = ''Invalid username and/or password!'' @ [CHR 0x0A]\<rparr>"
proof -
  have f: "\<not> DefaultAuthenticator test_users ''a_username'' ''a_password''"
    by (simp add: DefaultAuthenticator_found lookup_test_users CompareInputs_a_username_a_password)
  have "Authenticate (NewDefaultBasicAuth test_users) (Some test_next) NewRecorder
          \<lparr>BasicAuth = Some (''a_username'', ''a_password'')\<rparr> =
        Inr (DefaultInvalidCredentialsResponse
               (SetWWWAuthenticate (NewDefaultBasicAuth test_users :: unit BasicAuth) NewRecorder)
               \<lparr>BasicAuth = Some (''a_username'', ''a_password'')\<rparr>)"
    using f by (intro Authenticate_invalid_credentials [where auth = "DefaultAuthenticator test_users"])
      (simp_all add: NewDefaultBasicAuth_fields)
  then show ?thesis using f
    by (simp add: lookup_test_users NewDefaultBasicAuth_fields SetWWWAuthenticate_unset
        DefaultInvalidCredentialsResponse_def Error_fresh NewRecorder_def StatusUnauthorized_def)
qed

text \<open>
  C2 (the code departs from the claim). The claim: after a successful lookup the
  comparison of the usernames cannot fail, so that the result for a key that was found
  is the result of the comparison of the passwords. In the code the variable
  \<open>usernamesMatch\<close> is \<open>CompareInputs(username, users[username])\<close>, and
  \<open>users[username]\<close> is the password stored at the key. For \<open>a_username\<close> of the test
  table that comparison fails although the key is found and the passwords match.
\<close>

theorem username_comparison_fails_after_lookup:
  "lookup test_users ''a_username'' = Some ''a_password'' \<and>
   index test_users ''a_username'' = ''a_password'' \<and>
   CompareInputs ''a_username'' (index test_users ''a_username'') = False \<and>
   CompareInputs ''a_password'' ''a_password'' = True \<and>
   DefaultAuthenticator test_users ''a_username'' ''a_password'' \<noteq>
     CompareInputs ''a_password'' ''a_password''"
  by (simp add: index_def lookup_test_users CompareInputs_a_username_a_password CompareInputs_same
      DefaultAuthenticator_found)

text \<open>
  C3. For a configuration whose authenticator and two rejection handlers are set, the
  handler returned by \<open>Authenticate(next)\<close> takes one of three paths. When \<open>r.BasicAuth()\<close>
  reports no credentials, the result is the invalid-scheme handler applied to the writer
  that carries the challenge, whatever \<open>next\<close> is. When the authenticator rejects the
  credentials, for whatever reason, the result is the invalid-credentials handler applied
  in the same way, whatever \<open>next\<close> is. When the authenticator accepts them, the result
  is \<open>next\<close> applied to the writer and the request.
\<close>

theorem Authenticate_three_paths:
  assumes "Authenticator a = Some auth"
    and "InvalidSchemeResponse a = Some isr"
    and "InvalidCredentialsResponse a = Some icr"
  shows "(BasicAuth r = None \<longrightarrow>
            (\<forall>next. Authenticate a next w r = Inr (isr (SetWWWAuthenticate a w) r))) \<and>
         (\<forall>u p. BasicAuth r = Some (u, p) \<and> \<not> auth u p \<longrightarrow>
            (\<forall>next. Authenticate a next w r = Inr (icr (SetWWWAuthenticate a w) r))) \<and>
         (\<forall>u p. BasicAuth r = Some (u, p) \<and> auth u p \<longrightarrow>
            (\<forall>nxt. Authenticate a (Some nxt) w r = Inr (nxt w r)))"
  using assms
  by (auto simp: Authenticate_invalid_scheme Authenticate_invalid_credentials
      Authenticate_authorized)

text \<open>
  The configuration of the test \<open>test_www_authenticate\<close> on four requests: no
  credentials, an unknown user, a registered user with a wrong password, and a registered
  pair. The unknown user and the wrong password get the same response.
\<close>

theorem Authenticate_three_paths_witness:
  "Authenticate (NewCustomBasicAuth None ''UTF-8'' None None ''Test'' test_users)
     (Some test_next) NewRecorder \<lparr>BasicAuth = None\<rparr> =
   Inr \<lparr>HeaderMap = [''Www-Authenticate'' \<mapsto> [challenge ''Test'' ''UTF-8''],
                     ''Content-Type'' \<mapsto> [''text/plain; charset=utf-8''],
                     ''X-Content-Type-Options'' \<mapsto> [''nosniff'']],
        Code = 401, wroteHeader = True,
        Body = ''Invalid authentication scheme!'' @ [CHR 0x0A]\<rparr> \<and>
   Authenticate (NewCustomBasicAuth None ''UTF-8'' None None ''Test'' test_users)
     (Some test_next) NewRecorder \<lparr>BasicAuth = Some (''gery'', ''gery'')\<rparr> =
   Inr \<lparr>HeaderMap = [''Www-Authenticate'' \<mapsto> [challenge ''Test'' ''UTF-8''],
                     ''Content-Type'' \<mapsto> [''text/plain; charset=utf-8''],
                     ''X-Content-Type-Options'' \<mapsto> [''nosniff'']],
        Code = 401, wroteHeader = True,
        Body = ''Invalid username and/or password!'' @ [CHR 0x0A]\<rparr> \<and>
   Authenticate (NewCustomBasicAuth None ''UTF-8'' None None ''Test'' test_users)
     (Some test_next) NewRecorder \<lparr>BasicAuth = Some (''gerysantoso'', ''gery'')\<rparr> =
   Inr \<lparr>HeaderMap = [''Www-Authenticate'' \<mapsto> [challenge ''Test'' ''UTF-8''],
                     ''Content-Type'' \<mapsto> [''text/plain; charset=utf-8''],
                     ''X-Content-Type-Options'' \<mapsto> [''nosniff'']],
        Code = 401, wroteHeader = True,
        Body = ''Invalid username and/or password!'' @ [CHR 0x0A]\<rparr> \<and>
   Authenticate (NewCustomBasicAuth None ''UTF-8'' None None ''Test'' test_users)
     (Some test_next) NewRecorder \<lparr>BasicAuth = Some (''gerysantoso'', ''gerysantoso'')\<rparr> =
   Inr \<lparr>HeaderMap = Map.empty, Code = 200, wroteHeader = True, Body = []\<rparr>"
proof -
  let ?a = "NewCustomBasicAuth None ''UTF-8'' None None ''Test'' test_users :: unit BasicAuth"
  have h: "Authenticator ?a = Some (DefaultAuthenticator test_users)"
    "InvalidSchemeResponse ?a = Some DefaultInvalidSchemeResponse"
    "InvalidCredentialsResponse ?a = Some DefaultInvalidCredentialsResponse"
    by (simp_all add: NewCustomBasicAuth_fields)
  have c: "SetWWWAuthenticate ?a NewRecorder =
             \<lparr>HeaderMap = [''Www-Authenticate'' \<mapsto> [challenge ''Test'' ''UTF-8'']],
              Code = 200, wroteHeader = False, Body = []\<rparr>"
    by (simp add: SetWWWAuthenticate_set NewCustomBasicAuth_fields NewRecorder_def)
  have e: "Error (SetWWWAuthenticate ?a NewRecorder) msg 401 =
             \<lparr>HeaderMap = [''Www-Authenticate'' \<mapsto> [challenge ''Test'' ''UTF-8''],
                           ''Content-Type'' \<mapsto> [''text/plain; charset=utf-8''],
                           ''X-Content-Type-Options'' \<mapsto> [''nosniff'']],
              Code = 401, wroteHeader = True, Body = msg @ [CHR 0x0A]\<rparr>" for msg
    unfolding c by (simp add: Error_fresh)
  have n: "test_next NewRecorder r =
             \<lparr>HeaderMap = Map.empty, Code = 200, wroteHeader = True, Body = []\<rparr>"
    for r :: Request
    by (simp add: test_next_def WriteHeader_def NewRecorder_def)
  show ?thesis
    using Authenticate_three_paths [OF h, of "\<lparr>BasicAuth = None\<rparr>" NewRecorder]
      Authenticate_three_paths [OF h, of "\<lparr>BasicAuth = Some (''gery'', ''gery'')\<rparr>" NewRecorder]
      Authenticate_three_paths [OF h, of "\<lparr>BasicAuth = Some (''gerysantoso'', ''gery'')\<rparr>"
        NewRecorder]
      Authenticate_three_paths [OF h, of "\<lparr>BasicAuth = Some (''gerysantoso'', ''gerysantoso'')\<rparr>"
        NewRecorder]
    by (simp add: DefaultAuthenticator_test_users e n DefaultInvalidSchemeResponse_def
        DefaultInvalidCredentialsResponse_def StatusUnauthorized_def)
qed

text \<open>
  C4. The two rejection paths of the gate are \<open>SendInvalidSchemeResponse\<close> and
  \<open>SendInvalidCredentialsResponse\<close>. Each hands to its handler the writer on which
  \<open>SetWWWAuthenticate\<close> has acted. When \<open>Realm\<close> and \<open>Charset\<close> are both non-empty, that
  writer has the header \<open>WWW-Authenticate\<close> (stored under its canonical key) set to
  \<open>Basic realm="<realm>", charset="<charset>"\<close> and is otherwise unchanged; when one of
  them is empty, the writer is unchanged. So on a writer without that header, the header
  is present for the handler if and only if both fields are non-empty. The default
  handlers leave the header as they find it.
\<close>

theorem challenge_header_rule:
  assumes "InvalidSchemeResponse a = Some isr" and "InvalidCredentialsResponse a = Some icr"
  shows "(BasicAuth r = None \<longrightarrow> Authenticate a nxt w r = SendInvalidSchemeResponse a w r) \<and>
         (\<forall>u p auth. BasicAuth r = Some (u, p) \<and> Authenticator a = Some auth \<and> \<not> auth u p \<longrightarrow>
            Authenticate a nxt w r = SendInvalidCredentialsResponse a w r) \<and>
         SendInvalidSchemeResponse a w r = Inr (isr (SetWWWAuthenticate a w) r) \<and>
         SendInvalidCredentialsResponse a w r = Inr (icr (SetWWWAuthenticate a w) r) \<and>
         (Realm a \<noteq> [] \<and> Charset a \<noteq> [] \<longrightarrow>
            SetWWWAuthenticate a w =
              w\<lparr>HeaderMap := (HeaderMap w)(''Www-Authenticate'' \<mapsto>
                  [''Basic realm='' @ [CHR 0x22] @ Realm a @ [CHR 0x22] @ '', charset='' @
                   [CHR 0x22] @ Charset a @ [CHR 0x22]])\<rparr>) \<and>
         (Realm a = [] \<or> Charset a = [] \<longrightarrow> SetWWWAuthenticate a w = w) \<and>
         (HeaderMap w ''Www-Authenticate'' = None \<longrightarrow>
            (HeaderMap (SetWWWAuthenticate a w) ''Www-Authenticate'' \<noteq> None \<longleftrightarrow>
               Realm a \<noteq> [] \<and> Charset a \<noteq> [])) \<and>
         (Realm a \<noteq> [] \<and> Charset a \<noteq> [] \<longrightarrow>
            Get ''WWW-Authenticate'' (HeaderMap (SetWWWAuthenticate a w)) =
              ''Basic realm='' @ [CHR 0x22] @ Realm a @ [CHR 0x22] @ '', charset='' @
              [CHR 0x22] @ Charset a @ [CHR 0x22]) \<and>
         HeaderMap (DefaultInvalidSchemeResponse (SetWWWAuthenticate a w) r) ''Www-Authenticate'' =
           HeaderMap (SetWWWAuthenticate a w) ''Www-Authenticate'' \<and>
         HeaderMap (DefaultInvalidCredentialsResponse (SetWWWAuthenticate a w) r)
             ''Www-Authenticate'' =
           HeaderMap (SetWWWAuthenticate a w) ''Www-Authenticate''"
proof -
  have 1: "SendInvalidSchemeResponse a w r = Inr (isr (SetWWWAuthenticate a w) r)"
    using assms by (simp add: SendInvalidSchemeResponse_def)
  have 2: "SendInvalidCredentialsResponse a w r = Inr (icr (SetWWWAuthenticate a w) r)"
    using assms by (simp add: SendInvalidCredentialsResponse_def)
  have 3: "Realm a \<noteq> [] \<and> Charset a \<noteq> [] \<longrightarrow>
            SetWWWAuthenticate a w =
              w\<lparr>HeaderMap := (HeaderMap w)(''Www-Authenticate'' \<mapsto>
                  [''Basic realm='' @ [CHR 0x22] @ Realm a @ [CHR 0x22] @ '', charset='' @
                   [CHR 0x22] @ Charset a @ [CHR 0x22]])\<rparr>"
    by (simp add: SetWWWAuthenticate_set challenge_def)
  have 4: "Realm a = [] \<or> Charset a = [] \<longrightarrow> SetWWWAuthenticate a w = w"
    by (simp add: SetWWWAuthenticate_unset)
  have 5: "HeaderMap w ''Www-Authenticate'' = None \<longrightarrow>
            (HeaderMap (SetWWWAuthenticate a w) ''Www-Authenticate'' \<noteq> None \<longleftrightarrow>
               Realm a \<noteq> [] \<and> Charset a \<noteq> [])"
    by (cases "Realm a \<noteq> [] \<and> Charset a \<noteq> []")
      (auto simp: SetWWWAuthenticate_set SetWWWAuthenticate_unset)
  have 6: "BasicAuth r = None \<longrightarrow> Authenticate a nxt w r = SendInvalidSchemeResponse a w r"
    by (simp add: Authenticate_def)
  have 7: "\<forall>u p auth. BasicAuth r = Some (u, p) \<and> Authenticator a = Some auth \<and> \<not> auth u p \<longrightarrow>
            Authenticate a nxt w r = SendInvalidCredentialsResponse a w r"
    by (simp add: Authenticate_def)
  have 8: "Realm a \<noteq> [] \<and> Charset a \<noteq> [] \<longrightarrow>
            Get ''WWW-Authenticate'' (HeaderMap (SetWWWAuthenticate a w)) =
              ''Basic realm='' @ [CHR 0x22] @ Realm a @ [CHR 0x22] @ '', charset='' @
              [CHR 0x22] @ Charset a @ [CHR 0x22]"
    by (simp add: SetWWWAuthenticate_set challenge_def Get_def canonical_keys)
  have 9: "HeaderMap (DefaultInvalidSchemeResponse (SetWWWAuthenticate a w) r)
             ''Www-Authenticate'' =
           HeaderMap (SetWWWAuthenticate a w) ''Www-Authenticate''"
    by (simp add: DefaultInvalidSchemeResponse_def Error_keeps_challenge)
  have 10: "HeaderMap (DefaultInvalidCredentialsResponse (SetWWWAuthenticate a w) r)
              ''Www-Authenticate'' =
            HeaderMap (SetWWWAuthenticate a w) ''Www-Authenticate''"
    by (simp add: DefaultInvalidCredentialsResponse_def Error_keeps_challenge)
  from 1 2 3 4 5 6 7 8 9 10 show ?thesis by blast
qed

text \<open>
  Rejections under the default handlers: with realm \<open>Test\<close> and charset \<open>UTF-8\<close> the
  response carries the challenge; with an empty charset, or an empty realm, it is a 401
  without the header.
\<close>

theorem challenge_header_rule_witness:
  "SendInvalidSchemeResponse (NewCustomBasicAuth None ''UTF-8'' None None ''Test'' test_users)
     NewRecorder \<lparr>BasicAuth = None\<rparr> =
   Inr \<lparr>HeaderMap =
          [''Www-Authenticate'' \<mapsto>
             [''Basic realm='' @ [CHR 0x22] @ ''Test'' @ [CHR 0x22] @ '', charset='' @
              [CHR 0x22] @ ''UTF-8'' @ [CHR 0x22]],
           ''Content-Type'' \<mapsto> [''text/plain; charset=utf-8''],
           ''X-Content-Type-Options'' \<mapsto> [''nosniff'']],
        Code = 401, wroteHeader = True,
        Body = ''Invalid authentication scheme!'' @ [CHR 0x0A]\<rparr> \<and>
   SendInvalidCredentialsResponse (NewCustomBasicAuth None [] None None ''Test'' test_users)
     NewRecorder \<lparr>BasicAuth = Some (''gery'', ''gery'')\<rparr> =
   Inr \<lparr>HeaderMap = [''Content-Type'' \<mapsto> [''text/plain; charset=utf-8''],
                     ''X-Content-Type-Options'' \<mapsto> [''nosniff'']],
        Code = 401, wroteHeader = True,
        Body = ''Invalid username and/or password!'' @ [CHR 0x0A]\<rparr> \<and>
   SendInvalidSchemeResponse (NewCustomBasicAuth None ''UTF-8'' None None [] test_users)
     NewRecorder \<lparr>BasicAuth = None\<rparr> =
   Inr \<lparr>HeaderMap = [''Content-Type'' \<mapsto> [''text/plain; charset=utf-8''],
                     ''X-Content-Type-Options'' \<mapsto> [''nosniff'']],
        Code = 401, wroteHeader = True,
        Body = ''Invalid authentication scheme!'' @ [CHR 0x0A]\<rparr>"
  using
    challenge_header_rule [of "NewCustomBasicAuth None ''UTF-8'' None None ''Test'' test_users"
      DefaultInvalidSchemeResponse DefaultInvalidCredentialsResponse "\<lparr>BasicAuth = None\<rparr>"
      "Some test_next" NewRecorder]
    challenge_header_rule [of "NewCustomBasicAuth None [] None None ''Test'' test_users"
      DefaultInvalidSchemeResponse DefaultInvalidCredentialsResponse
      "\<lparr>BasicAuth = Some (''gery'', ''gery'')\<rparr>" "Some test_next" NewRecorder]
    challenge_header_rule [of "NewCustomBasicAuth None ''UTF-8'' None None [] test_users"
      DefaultInvalidSchemeResponse DefaultInvalidCredentialsResponse "\<lparr>BasicAuth = None\<rparr>"
      "Some test_next" NewRecorder]
  by (simp add: NewCustomBasicAuth_fields DefaultInvalidSchemeResponse_def
      DefaultInvalidCredentialsResponse_def Error_fresh NewRecorder_def StatusUnauthorized_def)

text \<open>
  C5. The authenticator stored by \<open>NewDefaultBasicAuth\<close>: for a username found in the
  users map with the stored value \<open>v\<close>, it returns true if and only if the SHA-256
  digests of the supplied username and of the supplied password both equal the digest of
  \<open>v\<close>; so a registered user whose username has another digest than the stored password
  is rejected with every password. It returns false when the map is nil or empty, or the
  username is not in it.
\<close>

theorem default_authenticator_digests:
  "Authenticator (NewDefaultBasicAuth users) = Some (DefaultAuthenticator users) \<and>
   (\<forall>v. lookup users u = Some v \<longrightarrow>
      (DefaultAuthenticator users u p \<longleftrightarrow>
         Sum256 (bytes u) = Sum256 (bytes v) \<and> Sum256 (bytes p) = Sum256 (bytes v))) \<and>
   (\<forall>v. lookup users u = Some v \<and> Sum256 (bytes u) \<noteq> Sum256 (bytes v) \<longrightarrow>
      \<not> DefaultAuthenticator users u p) \<and>
   (users = None \<or> len users = 0 \<or> lookup users u = None \<longrightarrow>
      \<not> DefaultAuthenticator users u p)"
proof -
  have "users = None \<Longrightarrow> len users = 0" by (simp add: len_def)
  then show ?thesis
    by (auto simp: NewDefaultBasicAuth_fields DefaultAuthenticator_found CompareInputs_iff
        DefaultAuthenticator_absent DefaultAuthenticator_empty)
qed

theorem default_authenticator_digests_witness:
  "lookup test_users ''a_username'' = Some ''a_password'' \<and>
   Sum256 (bytes ''a_username'') \<noteq> Sum256 (bytes ''a_password'') \<and>
   \<not> DefaultAuthenticator test_users ''a_username'' ''a_password'' \<and>
   lookup test_users ''gerysantoso'' = Some ''gerysantoso'' \<and>
   DefaultAuthenticator test_users ''gerysantoso'' ''gerysantoso'' \<and>
   lookup test_users ''gery'' = None \<and>
   \<not> DefaultAuthenticator test_users ''gery'' ''gery'' \<and>
   \<not> DefaultAuthenticator None ''gerysantoso'' ''gerysantoso''"
  using default_authenticator_digests [of test_users "''a_username''" "''a_password''"]
    default_authenticator_digests [of test_users "''gerysantoso''" "''gerysantoso''"]
    default_authenticator_digests [of test_users "''gery''" "''gery''"]
    default_authenticator_digests [of None "''gerysantoso''" "''gerysantoso''"]
  by (auto simp: lookup_test_users digest_a_username digest_a_password)

text \<open>
  C6 (the claim as stated fails). The default constructor sets \<open>Charset\<close> to \<open>UTF-8\<close>;
  the custom constructor keeps the charset it is given, here the empty string. The two
  configurations differ.
\<close>

theorem default_differs_from_custom_with_sentinels:
  "(NewDefaultBasicAuth test_users :: unit BasicAuth) \<noteq>
     NewCustomBasicAuth None [] None None [] test_users \<and>
   Charset (NewDefaultBasicAuth test_users :: unit BasicAuth) = ''UTF-8'' \<and>
   Charset (NewCustomBasicAuth None [] None None [] test_users :: unit BasicAuth) = []"
proof -
  have "Charset (NewDefaultBasicAuth test_users :: unit BasicAuth) \<noteq>
        Charset (NewCustomBasicAuth None [] None None [] test_users :: unit BasicAuth)"
    by (simp add: NewDefaultBasicAuth_fields NewCustomBasicAuth_fields)
  then have "(NewDefaultBasicAuth test_users :: unit BasicAuth) \<noteq>
     NewCustomBasicAuth None [] None None [] test_users" by metis
  then show ?thesis by (simp add: NewDefaultBasicAuth_fields NewCustomBasicAuth_fields)
qed

text \<open>
  C6, amended. For every users map, the custom constructor called with every optional
  argument at its sentinel yields the same authenticator, the same two rejection
  handlers, the same (empty) realm and the same users as the default constructor, and the
  gates of the two configurations return the same result on every writer and request.
  The field \<open>Charset\<close> is the empty string in the one and \<open>UTF-8\<close> in the other.
\<close>

theorem default_equals_custom_up_to_charset:
  "Authenticator (NewCustomBasicAuth None [] None None [] users :: 'r BasicAuth) =
     Authenticator (NewDefaultBasicAuth users :: 'r BasicAuth) \<and>
   InvalidCredentialsResponse (NewCustomBasicAuth None [] None None [] users :: 'r BasicAuth) =
     InvalidCredentialsResponse (NewDefaultBasicAuth users) \<and>
   InvalidSchemeResponse (NewCustomBasicAuth None [] None None [] users :: 'r BasicAuth) =
     InvalidSchemeResponse (NewDefaultBasicAuth users) \<and>
   Realm (NewCustomBasicAuth None [] None None [] users :: 'r BasicAuth) =
     Realm (NewDefaultBasicAuth users :: 'r BasicAuth) \<and>
   Users (NewCustomBasicAuth None [] None None [] users :: 'r BasicAuth) =
     Users (NewDefaultBasicAuth users :: 'r BasicAuth) \<and>
   Charset (NewCustomBasicAuth None [] None None [] users :: 'r BasicAuth) = [] \<and>
   Charset (NewDefaultBasicAuth users :: 'r BasicAuth) = ''UTF-8'' \<and>
   (\<forall>next w r.
      Authenticate (NewCustomBasicAuth None [] None None [] users :: 'r BasicAuth) next w r =
      Authenticate (NewDefaultBasicAuth users) next w r)"
proof -
  have "Authenticate (NewCustomBasicAuth None [] None None [] users :: 'r BasicAuth) nxt w r =
      Authenticate (NewDefaultBasicAuth users) nxt w r" for nxt w r
    by (rule Authenticate_cong_fields)
      (simp_all add: NewDefaultBasicAuth_fields NewCustomBasicAuth_fields SetWWWAuthenticate_unset)
  then show ?thesis
    by (simp add: NewDefaultBasicAuth_fields NewCustomBasicAuth_fields)
qed

theorem default_equals_custom_up_to_charset_witness:
  "Authenticate (NewCustomBasicAuth None [] None None [] test_users) (Some test_next) NewRecorder
     \<lparr>BasicAuth = Some (''gerysantoso'', ''gerysantoso'')\<rparr> =
   Authenticate (NewDefaultBasicAuth test_users) (Some test_next) NewRecorder
     \<lparr>BasicAuth = Some (''gerysantoso'', ''gerysantoso'')\<rparr> \<and>
   Authenticate (NewCustomBasicAuth None [] None None [] None) (Some test_next) NewRecorder
     \<lparr>BasicAuth = None\<rparr> =
   Authenticate (NewDefaultBasicAuth None) (Some test_next) NewRecorder \<lparr>BasicAuth = None\<rparr>"
  using default_equals_custom_up_to_charset [of test_users, where 'r = unit]
    default_equals_custom_up_to_charset [of None, where 'r = unit]
  by blast

text \<open>
  C7. The constructors are total, and in the configuration that either returns the
  authenticator and the two rejection handlers are set: to the argument when the caller
  gave one, to the default otherwise. The gate of such a configuration, given a handler
  \<open>next\<close>, returns a response on every writer and request: no call goes through nil.
\<close>

theorem constructors_well_formed:
  "Authenticator (NewCustomBasicAuth au cs icr isr realm users) =
     Some (case au of None \<Rightarrow> DefaultAuthenticator users | Some f \<Rightarrow> f) \<and>
   InvalidCredentialsResponse (NewCustomBasicAuth au cs icr isr realm users) =
     Some (case icr of None \<Rightarrow> DefaultInvalidCredentialsResponse | Some h \<Rightarrow> h) \<and>
   InvalidSchemeResponse (NewCustomBasicAuth au cs icr isr realm users) =
     Some (case isr of None \<Rightarrow> DefaultInvalidSchemeResponse | Some h \<Rightarrow> h) \<and>
   Authenticator (NewDefaultBasicAuth users) = Some (DefaultAuthenticator users) \<and>
   InvalidCredentialsResponse (NewDefaultBasicAuth users :: 'r BasicAuth) =
     Some DefaultInvalidCredentialsResponse \<and>
   InvalidSchemeResponse (NewDefaultBasicAuth users :: 'r BasicAuth) =
     Some DefaultInvalidSchemeResponse \<and>
   Authenticator (NewCustomBasicAuth au cs icr isr realm users) \<noteq> None \<and>
   InvalidCredentialsResponse (NewCustomBasicAuth au cs icr isr realm users) \<noteq> None \<and>
   InvalidSchemeResponse (NewCustomBasicAuth au cs icr isr realm users) \<noteq> None \<and>
   Authenticator (NewDefaultBasicAuth users :: 'r BasicAuth) \<noteq> None \<and>
   InvalidCredentialsResponse (NewDefaultBasicAuth users :: 'r BasicAuth) \<noteq> None \<and>
   InvalidSchemeResponse (NewDefaultBasicAuth users :: 'r BasicAuth) \<noteq> None \<and>
   (\<forall>nxt w r. \<exists>w'.
      Authenticate (NewCustomBasicAuth au cs icr isr realm users) (Some nxt) w r = Inr w') \<and>
   (\<forall>nxt w r. \<exists>w'.
      Authenticate (NewDefaultBasicAuth users :: 'r BasicAuth) (Some nxt) w r = Inr w')"
proof -
  let ?a = "NewCustomBasicAuth au cs icr isr realm users"
  have "\<exists>w'. Authenticate ?a (Some nxt) w r = Inr w'" for nxt w r
    by (simp add: Authenticate_def SendInvalidSchemeResponse_def SendInvalidCredentialsResponse_def
        NewCustomBasicAuth_fields split: option.splits prod.splits)
  moreover have "\<exists>w'. Authenticate (NewDefaultBasicAuth users :: 'r BasicAuth) (Some nxt) w r = Inr w'"
    for nxt w r
    by (simp add: Authenticate_def SendInvalidSchemeResponse_def SendInvalidCredentialsResponse_def
        NewDefaultBasicAuth_fields split: option.splits prod.splits)
  ultimately show ?thesis
    by (simp add: NewDefaultBasicAuth_fields NewCustomBasicAuth_fields)
qed

text \<open>The construction of the test \<open>test_empty_charset_users_and_realm\<close>: every argument nil or empty.\<close>

theorem constructors_well_formed_witness:
  "Authenticator (NewCustomBasicAuth None [] None None [] None :: unit BasicAuth) =
     Some (DefaultAuthenticator None) \<and>
   InvalidCredentialsResponse (NewCustomBasicAuth None [] None None [] None :: unit BasicAuth) =
     Some DefaultInvalidCredentialsResponse \<and>
   InvalidSchemeResponse (NewCustomBasicAuth None [] None None [] None :: unit BasicAuth) =
     Some DefaultInvalidSchemeResponse \<and>
   (\<exists>w'. Authenticate (NewCustomBasicAuth None [] None None [] None) (Some test_next) NewRecorder
            \<lparr>BasicAuth = None\<rparr> = Inr w')"
  using constructors_well_formed [where au = None and cs = "[]" and icr = None and isr = None
      and realm = "[]" and users = None and 'r = unit]
  by (auto split: option.splits)

text \<open>
  C8. The two default rejection handlers are calls of \<open>http.Error\<close> with status 401 and a
  fixed message. On a writer whose status has not been written, each sets the status to
  401 and appends its message and a newline to the body; beside that it sets the two
  headers that \<open>http.Error\<close> sets for a plain-text body, and nothing else.
\<close>

theorem default_rejection_handlers:
  "InvalidCredentialsResponse (NewDefaultBasicAuth users :: 'r BasicAuth) =
     Some DefaultInvalidCredentialsResponse \<and>
   InvalidSchemeResponse (NewDefaultBasicAuth users :: 'r BasicAuth) =
     Some DefaultInvalidSchemeResponse \<and>
   (\<not> wroteHeader w \<longrightarrow>
      DefaultInvalidCredentialsResponse w (r :: 'r Request_scheme) =
        w\<lparr>HeaderMap := (HeaderMap w)(''Content-Type'' \<mapsto> [''text/plain; charset=utf-8''],
                                     ''X-Content-Type-Options'' \<mapsto> [''nosniff'']),
          Code := 401, wroteHeader := True,
          Body := Body w @ ''Invalid username and/or password!'' @ [CHR 0x0A]\<rparr> \<and>
      DefaultInvalidSchemeResponse w r =
        w\<lparr>HeaderMap := (HeaderMap w)(''Content-Type'' \<mapsto> [''text/plain; charset=utf-8''],
                                     ''X-Content-Type-Options'' \<mapsto> [''nosniff'']),
          Code := 401, wroteHeader := True,
          Body := Body w @ ''Invalid authentication scheme!'' @ [CHR 0x0A]\<rparr>)"
  by (simp add: NewDefaultBasicAuth_fields DefaultInvalidCredentialsResponse_def
      DefaultInvalidSchemeResponse_def Error_fresh StatusUnauthorized_def)

theorem default_rejection_handlers_witness:
  "\<not> wroteHeader NewRecorder \<and>
   DefaultInvalidCredentialsResponse NewRecorder \<lparr>BasicAuth = Some (''gery'', ''gery'')\<rparr> =
     \<lparr>HeaderMap = [''Content-Type'' \<mapsto> [''text/plain; charset=utf-8''],
                   ''X-Content-Type-Options'' \<mapsto> [''nosniff'']],
      Code = 401, wroteHeader = True,
      Body = ''Invalid username and/or password!'' @ [CHR 0x0A]\<rparr> \<and>
   DefaultInvalidSchemeResponse NewRecorder \<lparr>BasicAuth = Some (''gery'', ''gery'')\<rparr> =
     \<lparr>HeaderMap = [''Content-Type'' \<mapsto> [''text/plain; charset=utf-8''],
                   ''X-Content-Type-Options'' \<mapsto> [''nosniff'']],
      Code = 401, wroteHeader = True,
      Body = ''Invalid authentication scheme!'' @ [CHR 0x0A]\<rparr>"
  using default_rejection_handlers [of None NewRecorder "\<lparr>BasicAuth = Some (''gery'', ''gery'')\<rparr>"]
  by (simp add: NewRecorder_def)

text \<open>
  C9. When the request carries credentials that the authenticator accepts, the result of
  the gate is the result of \<open>next\<close> on the writer and the request that the gate received:
  the gate sets no header and writes no status of its own.
\<close>

theorem authorized_passes_through:
  assumes "BasicAuth r = Some (u, p)" and "Authenticator a = Some auth" and "auth u p"
  shows "Authenticate a (Some nxt) w r = Inr (nxt w r)"
  using assms by (rule Authenticate_authorized)

theorem authorized_passes_through_witness:
  "Authenticate (NewDefaultBasicAuth test_users :: unit BasicAuth) (Some test_next) NewRecorder
     \<lparr>BasicAuth = Some (''gerysantoso'', ''gerysantoso'')\<rparr> =
   Inr \<lparr>HeaderMap = Map.empty, Code = 200, wroteHeader = True, Body = []\<rparr>"
proof -
  have "Authenticate (NewDefaultBasicAuth test_users :: unit BasicAuth) (Some test_next) NewRecorder
     \<lparr>BasicAuth = Some (''gerysantoso'', ''gerysantoso'')\<rparr> =
     Inr (test_next NewRecorder \<lparr>BasicAuth = Some (''gerysantoso'', ''gerysantoso'')\<rparr>)"
    using DefaultAuthenticator_test_users(1)
      authorized_passes_through [where a = "NewDefaultBasicAuth test_users :: unit BasicAuth"
        and auth = "DefaultAuthenticator test_users" and u = "''gerysantoso''"
        and p = "''gerysantoso''" and nxt = test_next and w = NewRecorder
        and r = "\<lparr>BasicAuth = Some (''gerysantoso'', ''gerysantoso'')\<rparr>"]
    by (simp add: NewDefaultBasicAuth_fields)
  then show ?thesis by (simp add: test_next_def WriteHeader_def NewRecorder_def)
qed

end
